theory Spec2Isabelle
  imports Complex_Main
begin

section \<open>Python strings\<close>

text \<open>
  A Python \<open>str\<close> is a sequence of Unicode code points, so it is modelled as a list of
  naturals. \<open>py\<close> turns an ASCII literal of the source into that representation.
\<close>

type_synonym pystr = "nat list"

definition py :: "string \<Rightarrow> pystr" where
  "py s = map of_char s"

subsection \<open>Case tables\<close>

text \<open>
  \<open>str.title\<close> and \<open>str.upper\<close> are driven by the Unicode character database. The tables
  below hold the ASCII letters and two further code points: U+01F0 (LATIN SMALL LETTER J WITH
  CARON, 496), a cased letter whose title-case and upper-case forms are the two code points
  U+004A U+030C, and U+030C (COMBINING CARON, 780), which is not cased. Every other code
  point is entered as caseless; that is right for the ASCII digits, punctuation and space
  and is a placeholder beyond ASCII, so statements about case conversion below are made for
  the code points of these tables only.
\<close>

definition is_ascii_upper :: "nat \<Rightarrow> bool" where
  "is_ascii_upper c = (65 \<le> c \<and> c \<le> 90)"

definition is_ascii_lower :: "nat \<Rightarrow> bool" where
  "is_ascii_lower c = (97 \<le> c \<and> c \<le> 122)"

definition is_cased :: "nat \<Rightarrow> bool" where
  "is_cased c = (is_ascii_upper c \<or> is_ascii_lower c \<or> c = 496)"

definition to_title_full :: "nat \<Rightarrow> pystr" where
  "to_title_full c =
     (if is_ascii_lower c then [c - 32] else if c = 496 then [74, 780] else [c])"

definition to_upper_full :: "nat \<Rightarrow> pystr" where
  "to_upper_full c =
     (if is_ascii_lower c then [c - 32] else if c = 496 then [74, 780] else [c])"

definition to_lower_full :: "nat \<Rightarrow> pystr" where
  "to_lower_full c = (if is_ascii_upper c then [c + 32] else [c])"

subsection \<open>\<open>str.title\<close>, \<open>str.upper\<close>, \<open>str.replace\<close>\<close>

text \<open>
  \<open>str.title\<close> walks the string once: a character that follows a cased character is
  lower-cased, any other character is title-cased, and the flag for the next character is
  whether the current one (of the input) is cased.
\<close>

fun title_from :: "bool \<Rightarrow> pystr \<Rightarrow> pystr" where
  "title_from previous_is_cased [] = []"
| "title_from previous_is_cased (c # cs) =
     (if previous_is_cased then to_lower_full c else to_title_full c)
       @ title_from (is_cased c) cs"

definition str_title :: "pystr \<Rightarrow> pystr" where
  "str_title s = title_from False s"

definition str_upper :: "pystr \<Rightarrow> pystr" where
  "str_upper s = concat (map to_upper_full s)"

text \<open>\<open>s.replace(" ", "_")\<close>: every space (32) becomes an underscore (95).\<close>

definition replace_space :: "pystr \<Rightarrow> pystr" where
  "replace_space s = map (\<lambda>c. if c = 32 then 95 else c) s"

section \<open>Data\<close>

text \<open>
  The listing endpoint answers with a JSON array of table objects. The source reads
  \<open>id\<close> and \<open>label\<close> with \<open>.get\<close>, so either may be missing; \<open>columns\<close> is an array of
  objects with a \<open>name\<close> and a \<open>label\<close>.
\<close>

record column_spec =
  col_name :: pystr
  col_label :: pystr

record table_info =
  tbl_id :: "pystr option"
  tbl_label :: "pystr option"
  tbl_columns :: "column_spec list"

text \<open>
  A record of the remote table is a JSON object: its keys in the order of the document,
  each with a value of some type \<open>'v\<close>. Keys of one object are distinct.
\<close>

type_synonym 'v json_object = "(pystr \<times> 'v) list"

text \<open>
  A \<open>DataFrame\<close>: the length of its index and its columns in order, each a name with one
  cell per row. A cell is \<open>None\<close> where pandas holds a missing value.
\<close>

record 'v dataframe =
  n_rows :: nat
  df_columns :: "(pystr \<times> 'v option list) list"

definition column_names :: "'v dataframe \<Rightarrow> pystr list" where
  "column_names df = map fst (df_columns df)"

section \<open>The pagination loop\<close>

text \<open>
  The state of the \<open>while True\<close> loop of \<open>import_tulip_table\<close> (lines 90 to 108 of
  \<open>import_tulip.py\<close>): its three variables, the
  GET requests sent so far (each with its \<open>limit\<close> and \<open>offset\<close> parameters) and the
  status codes printed by \<open>print("Error:", response.status_code)\<close>.
\<close>

record 'v fetch_state =
  iteration :: int
  offset :: int
  all_records :: "'v json_object list"
  page_requests :: "(int \<times> int) list"
  page_errors :: "int list"

text \<open>
  The records endpoint is a function from the parameters \<open>limit\<close> and \<open>offset\<close> of a
  request to the status code and the JSON array of the response. One call of the source
  never sends the same offset twice, so a function covers every behaviour of a server
  within a call. \<open>max_iterations\<close> is the quotient \<open>max_limit / 1000\<close>, kept exact as a
  rational; Python rounds it to the nearest double, which decides
  \<open>iteration >= max_iterations\<close> in the same way as long as fewer than \<open>2 ^ 43\<close> pages have
  been read.
\<close>

function fetch_loop ::
  "(int \<Rightarrow> int \<Rightarrow> int \<times> 'v json_object list) \<Rightarrow> int \<Rightarrow> rat \<Rightarrow> 'v fetch_state \<Rightarrow> 'v fetch_state"
where
  "fetch_loop get default_limit max_iterations s =
     (case get default_limit (offset s) of
        (status_code, table_data) \<Rightarrow>
          if status_code = 200 then
            if int (length table_data) < default_limit
               \<or> max_iterations \<le> of_int (iteration s + 1)
            then s\<lparr>iteration := iteration s + 1,
                   all_records := all_records s @ table_data,
                   page_requests := page_requests s @ [(default_limit, offset s)]\<rparr>
            else fetch_loop get default_limit max_iterations
                   (s\<lparr>iteration := iteration s + 1,
                      offset := offset s + default_limit,
                      all_records := all_records s @ table_data,
                      page_requests := page_requests s @ [(default_limit, offset s)]\<rparr>)
          else s\<lparr>page_requests := page_requests s @ [(default_limit, offset s)],
                 page_errors := page_errors s @ [status_code]\<rparr>)"
  by pat_completeness auto
termination
proof (relation "measure (\<lambda>(get, default_limit, max_iterations, s).
                   nat (\<lceil>max_iterations\<rceil> - iteration s))")
qed (simp_all add: not_le less_ceiling_iff)

declare fetch_loop.simps [simp del]

section \<open>Building the table\<close>

text \<open>
  Lines 111 to 119. \<open>pd.DataFrame(all_records)\<close> on a list of dicts: one row per record, one
  column per key,
  the keys in the order in which the records first show them; a record without a key
  leaves the cell missing.
\<close>

definition add_key :: "pystr list \<Rightarrow> pystr \<Rightarrow> pystr list" where
  "add_key ks k = (if k \<in> set ks then ks else ks @ [k])"

definition record_keys :: "'v json_object list \<Rightarrow> pystr list" where
  "record_keys recs = foldl add_key [] (concat (map (map fst) recs))"

definition DataFrame :: "'v json_object list \<Rightarrow> 'v dataframe" where
  "DataFrame recs =
     \<lparr>n_rows = length recs,
      df_columns = map (\<lambda>k. (k, map (\<lambda>r. map_of r k) recs)) (record_keys recs)\<rparr>"

text \<open>\<open>df.empty\<close> is true when either axis has length zero.\<close>

definition df_empty :: "'v dataframe \<Rightarrow> bool" where
  "df_empty df = (n_rows df = 0 \<or> df_columns df = [])"

text \<open>
  \<open>pd.DataFrame(columns=column_names)\<close> has no rows. \<open>df[c] = None\<close> adds the column \<open>c\<close>
  at the end, or overwrites the cells of every column already named \<open>c\<close>.
\<close>

definition DataFrame_columns :: "pystr list \<Rightarrow> 'v dataframe" where
  "DataFrame_columns names = \<lparr>n_rows = 0, df_columns = map (\<lambda>n. (n, [])) names\<rparr>"

definition set_none :: "pystr \<Rightarrow> 'v dataframe \<Rightarrow> 'v dataframe" where
  "set_none c df =
     (if c \<in> set (column_names df)
      then df\<lparr>df_columns :=
             map (\<lambda>(n, cells). if n = c then (n, replicate (n_rows df) None) else (n, cells))
               (df_columns df)\<rparr>
      else df\<lparr>df_columns := df_columns df @ [(c, replicate (n_rows df) None)]\<rparr>)"

definition empty_table :: "column_spec list \<Rightarrow> 'v dataframe" where
  "empty_table table_columns =
     set_none (py ''_Sequencenumber'')
       (set_none (py ''_updatedAt'')
         (set_none (py ''_createdAt'')
           (DataFrame_columns (map col_name table_columns))))"

definition build_table :: "column_spec list \<Rightarrow> 'v json_object list \<Rightarrow> 'v dataframe" where
  "build_table table_columns all_recs =
     (let df = DataFrame all_recs
      in if df_empty df then empty_table table_columns else df)"

section \<open>Time zones\<close>

text \<open>
  The date and time work is done by pandas, so its four operations are parameters of the
  model, each on the cells of one column and each \<open>None\<close> where pandas raises:
  \<open>pd.to_datetime\<close>, the test \<open>.dt.tz is None\<close>,
  \<open>.dt.tz_localize('UTC').dt.tz_convert('America/Montreal')\<close> and
  \<open>.dt.tz_convert('America/Montreal')\<close>.
\<close>

record 'v pandas =
  to_datetime :: "'v option list \<Rightarrow> 'v option list option"
  dt_tz_is_none :: "'v option list \<Rightarrow> bool option"
  tz_localize_convert :: "'v option list \<Rightarrow> 'v option list option"
  tz_convert :: "'v option list \<Rightarrow> 'v option list option"

definition set_column :: "pystr \<Rightarrow> 'v option list \<Rightarrow> 'v dataframe \<Rightarrow> 'v dataframe" where
  "set_column c cells df =
     df\<lparr>df_columns := map (\<lambda>(n, old). if n = c then (n, cells) else (n, old)) (df_columns df)\<rparr>"

text \<open>
  One round of the \<open>for utc_col\<close> loop (lines 122 to 130). \<open>df[utc_col]\<close> is a column only
  when exactly one
  column has that name: with none it raises \<open>KeyError\<close>, with several it is a frame that
  \<open>pd.to_datetime\<close> rejects. The bare \<open>except\<close> catches everything and prints; what was
  assigned before the exception stays. The second component collects the names printed.
\<close>

definition convert_column ::
  "'v pandas \<Rightarrow> pystr \<Rightarrow> 'v dataframe \<times> pystr list \<Rightarrow> 'v dataframe \<times> pystr list"
where
  "convert_column pd utc_col acc =
     (case acc of (df, out) \<Rightarrow>
        (case filter (\<lambda>(n, cells). n = utc_col) (df_columns df) of
           [(n, cells)] \<Rightarrow>
             (case to_datetime pd cells of
                None \<Rightarrow> (df, out @ [utc_col])
              | Some parsed \<Rightarrow>
                  (case dt_tz_is_none pd parsed of
                     None \<Rightarrow> (set_column utc_col parsed df, out @ [utc_col])
                   | Some True \<Rightarrow>
                       (case tz_localize_convert pd parsed of
                          None \<Rightarrow> (set_column utc_col parsed df, out @ [utc_col])
                        | Some local \<Rightarrow> (set_column utc_col local df, out))
                   | Some False \<Rightarrow>
                       (case tz_convert pd parsed of
                          None \<Rightarrow> (set_column utc_col parsed df, out @ [utc_col])
                        | Some local \<Rightarrow> (set_column utc_col local df, out))))
         | _ \<Rightarrow> (df, out @ [utc_col])))"

definition convert_timestamps :: "'v pandas \<Rightarrow> 'v dataframe \<Rightarrow> 'v dataframe \<times> pystr list" where
  "convert_timestamps pd df =
     convert_column pd (py ''_updatedAt'') (convert_column pd (py ''_createdAt'') (df, []))"

section \<open>Column names\<close>

text \<open>
  Lines 133 to 136. \<open>column_mapping\<close> is the dict comprehension over \<open>table_columns\<close>: of
  two entries with
  the same \<open>name\<close> the later one stays. \<open>df.rename(columns=m, errors='ignore')\<close> replaces
  each column name that is a key of \<open>m\<close> and leaves the others.
\<close>

definition column_mapping :: "column_spec list \<Rightarrow> pystr \<Rightarrow> pystr option" where
  "column_mapping table_columns =
     map_of (rev (map (\<lambda>entry. (col_name entry, col_label entry)) table_columns))"

definition timestamp_mapping :: "pystr \<Rightarrow> pystr option" where
  "timestamp_mapping =
     map_of [(py ''_createdAt'', py ''Created_At''), (py ''_updatedAt'', py ''Updated_At'')]"

definition renamed :: "(pystr \<Rightarrow> pystr option) \<Rightarrow> pystr \<Rightarrow> pystr" where
  "renamed m n = (case m n of Some l \<Rightarrow> l | None \<Rightarrow> n)"

definition df_rename :: "(pystr \<Rightarrow> pystr option) \<Rightarrow> 'v dataframe \<Rightarrow> 'v dataframe" where
  "df_rename m df =
     df\<lparr>df_columns := map (\<lambda>(n, cells). (renamed m n, cells)) (df_columns df)\<rparr>"

definition rename_stage :: "bool \<Rightarrow> column_spec list \<Rightarrow> 'v dataframe \<Rightarrow> 'v dataframe" where
  "rename_stage rename_cols table_columns df =
     (if rename_cols
      then df_rename timestamp_mapping (df_rename (column_mapping table_columns) df)
      else df)"

text \<open>
  The last two statements (lines 139 and 140): the list comprehension over \<open>df.columns\<close>,
  then
  \<open>df.columns.str.replace(" ", "_")\<close>; \<open>set_names\<close> is the assignment to \<open>df.columns\<close>.
\<close>

definition standardize :: "pystr list \<Rightarrow> pystr list" where
  "standardize cols =
     map replace_space
       (map (\<lambda>col. if col = py ''ID'' then str_upper col else str_title col) cols)"


definition set_names :: "pystr list \<Rightarrow> 'v dataframe \<Rightarrow> 'v dataframe" where
  "set_names names df =
     df\<lparr>df_columns := map (\<lambda>(n, (old, cells)). (n, cells)) (zip names (df_columns df))\<rparr>"

definition standardize_columns :: "'v dataframe \<Rightarrow> 'v dataframe" where
  "standardize_columns df = set_names (standardize (column_names df)) df"

section \<open>The import\<close>

text \<open>
  What a call can raise, with the message of the exception; what it can return (the source
  returns a message string where the listing fails, and the table otherwise); the requests
  it sends; the lines it prints.
\<close>

datatype exn = ValueError pystr | AttributeError pystr | OverflowError pystr

datatype 'v result = Message pystr | Table "'v dataframe"

datatype 'v outcome = Raised exn | Returned "'v result"

datatype request = GetTables | GetRecords int int

datatype diagnostic = PageError int | ColumnMissing pystr

record 'v run =
  outcome :: "'v outcome"
  requests :: "request list"
  printed :: "diagnostic list"

text \<open>
  The arguments. The host name \<open>instance\<close> only enters the two URLs, which the model does
  not spell out. Of \<open>query\<close> the source uses what \<open>urllib.parse\<close> finds under the key
  \<open>limit\<close> in the query part of the records URL: nothing, a text that \<open>int\<close> reads as a
  number, or a text that \<open>int\<close> rejects.
\<close>

datatype limit_param = NoLimit | Limit int | NotAnInt

record args =
  authorization :: "pystr option"
  table_id :: "pystr option"
  table_name :: "pystr option"
  rename_columns :: bool
  query_limit :: limit_param

text \<open>
  The world outside: the answer of the listing endpoint (status code and JSON array), the
  records endpoint, and pandas' date and time operations. Every request is taken to be
  answered, with a body that is the JSON array the source expects; a request that
  \<open>requests.get\<close> gives up on, or a body of another shape, is not part of the model.
\<close>

record 'v env =
  tables_response :: "int \<times> table_info list"
  records_response :: "int \<Rightarrow> int \<Rightarrow> int \<times> 'v json_object list"
  pandas_dt :: "'v pandas"

definition exactly_one_message :: pystr where
  "exactly_one_message =
     py ''Exactly one of '' @ [39] @ py ''table_name'' @ [39] @ py '' or '' @ [39]
       @ py ''table_id'' @ [39] @ py '' must be provided.''"

definition none_encode_message :: pystr where
  "none_encode_message =
     [39] @ py ''NoneType'' @ [39] @ py '' object has no attribute '' @ [39] @ py ''encode''
       @ [39]"

definition invalid_credentials_message :: pystr where
  "invalid_credentials_message = py ''Invalid Credentials, please update and try again''"

definition not_found_message :: "pystr \<Rightarrow> pystr" where
  "not_found_message table_match =
     py ''Table '' @ table_match
       @ py '' not found, please check the table name or ID in Tulip and type it as is''"

text \<open>
  \<open>table_match\<close> and \<open>table_identifier\<close> are read after the check that exactly one of the
  two references is set, so where \<open>table_id\<close> is \<open>None\<close> the name is there.
\<close>

definition table_match :: "args \<Rightarrow> pystr" where
  "table_match a = (case table_id a of Some i \<Rightarrow> i | None \<Rightarrow> the (table_name a))"

definition table_identifier :: "args \<Rightarrow> table_info \<Rightarrow> pystr option" where
  "table_identifier a = (case table_id a of Some i \<Rightarrow> tbl_id | None \<Rightarrow> tbl_label)"

text \<open>
  \<open>int(parsed_query.get("limit", [0])[0])\<close>; the message of \<open>int\<close> ends with the text it
  rejected, which is left out here.
\<close>

definition max_limit_of :: "limit_param \<Rightarrow> exn + int" where
  "max_limit_of q =
     (case q of
        NoLimit \<Rightarrow> Inr 0
      | Limit l \<Rightarrow> Inr l
      | NotAnInt \<Rightarrow> Inl (ValueError (py ''invalid literal for int() with base 10'')))"

text \<open>
  \<open>max_limit / 1000 if max_limit != 0 else 99999999\<close>. The division of two ints raises
  \<open>OverflowError\<close> when the quotient rounds to a double beyond the largest one.
\<close>

definition max_iterations_of :: "int \<Rightarrow> exn + rat" where
  "max_iterations_of max_limit =
     (if max_limit \<noteq> 0
      then if 1000 * (2 ^ 1024 - 2 ^ 970) \<le> \<bar>max_limit\<bar>
           then Inl (OverflowError (py ''integer division result too large for a float''))
           else Inr (of_int max_limit / 1000)
      else Inr 99999999)"

definition default_limit_of :: "int \<Rightarrow> int" where
  "default_limit_of max_limit = (if max_limit > 0 \<and> max_limit < 1000 then max_limit else 1000)"

definition initial_state :: "'v fetch_state" where
  "initial_state =
     \<lparr>iteration = 0, offset = 0, all_records = [], page_requests = [], page_errors = []\<rparr>"

definition fetch_records :: "'v env \<Rightarrow> int \<Rightarrow> rat \<Rightarrow> 'v fetch_state" where
  "fetch_records env max_limit max_iterations =
     fetch_loop (records_response env) (default_limit_of max_limit) max_iterations initial_state"

text \<open>Everything after the loop: the frame, the time zones, the column names.\<close>

definition process_records ::
  "'v env \<Rightarrow> column_spec list \<Rightarrow> bool \<Rightarrow> 'v json_object list \<Rightarrow> 'v dataframe \<times> pystr list"
where
  "process_records env table_columns rename_cols all_recs =
     (case convert_timestamps (pandas_dt env) (build_table table_columns all_recs) of
        (df, missing) \<Rightarrow>
          (standardize_columns (rename_stage rename_cols table_columns df), missing))"

text \<open>
  The function itself, statement by statement (lines 27 to 142). A table object that
  \<open>next\<close> finds has the key
  it was matched on, so it is not an empty dict and \<open>not table_info\<close> is false for it: the
  not-found message is returned exactly when nothing matches.
\<close>

definition import_tulip_table :: "'v env \<Rightarrow> args \<Rightarrow> 'v run" where
  "import_tulip_table env a =
     (if (table_name a = None \<and> table_id a = None)
         \<or> (table_name a \<noteq> None \<and> table_id a \<noteq> None)
      then \<lparr>outcome = Raised (ValueError exactly_one_message), requests = [], printed = []\<rparr>
      else
       (case authorization a of
          None \<Rightarrow>
            \<lparr>outcome = Raised (AttributeError none_encode_message),
             requests = [], printed = []\<rparr>
        | Some token \<Rightarrow>
           (case tables_response env of
              (status_code, tables_data) \<Rightarrow>
                (if status_code \<noteq> 200
                 then \<lparr>outcome = Returned (Message invalid_credentials_message),
                       requests = [GetTables], printed = []\<rparr>
                 else
                  (case find (\<lambda>record. table_identifier a record = Some (table_match a))
                          tables_data of
                     None \<Rightarrow>
                       \<lparr>outcome = Returned (Message (not_found_message (table_match a))),
                        requests = [GetTables], printed = []\<rparr>
                   | Some table_info \<Rightarrow>
                      (case max_limit_of (query_limit a) of
                         Inl e \<Rightarrow>
                           \<lparr>outcome = Raised e, requests = [GetTables], printed = []\<rparr>
                       | Inr max_limit \<Rightarrow>
                          (case max_iterations_of max_limit of
                             Inl e \<Rightarrow>
                               \<lparr>outcome = Raised e, requests = [GetTables], printed = []\<rparr>
                           | Inr max_iterations \<Rightarrow>
                              (let st = fetch_records env max_limit max_iterations
                               in (case process_records env (tbl_columns table_info)
                                           (rename_columns a) (all_records st) of
                                     (df, missing) \<Rightarrow>
                                       \<lparr>outcome = Returned (Table df),
                                        requests =
                                          GetTables
                                            # map (\<lambda>(l, off). GetRecords l off)
                                                (page_requests st),
                                        printed =
                                          map PageError (page_errors st)
                                            @ map ColumnMissing missing\<rparr>)))))))))"

section \<open>Pages\<close>


section \<open>Sample inputs\<close>

text \<open>
  Concrete inputs for the instances below: a table with two columns, a record of it, a
  stand-in for pandas that leaves the cells as they are (and reports no time zone), and
  records endpoints with a fixed behaviour.
\<close>

definition sample_columns :: "column_spec list" where
  "sample_columns =
     [\<lparr>col_name = py ''id'', col_label = py ''ID''\<rparr>,
      \<lparr>col_name = py ''fzkpq_status'', col_label = py ''order status''\<rparr>]"

definition sample_table :: table_info where
  "sample_table =
     \<lparr>tbl_id = Some (py ''T1''), tbl_label = Some (py ''Orders''),
      tbl_columns = sample_columns\<rparr>"


definition sample_pandas :: "int pandas" where
  "sample_pandas =
     \<lparr>to_datetime = Some, dt_tz_is_none = (\<lambda>cells. Some True),
      tz_localize_convert = Some, tz_convert = Some\<rparr>"

definition sample_env :: "int \<Rightarrow> (int \<Rightarrow> int \<Rightarrow> int \<times> int json_object list) \<Rightarrow> int env" where
  "sample_env status_code get =
     \<lparr>tables_response = (status_code, [sample_table]), records_response = get,
      pandas_dt = sample_pandas\<rparr>"

definition sample_args :: args where
  "sample_args =
     \<lparr>authorization = Some (py ''token''), table_id = Some (py ''T1''), table_name = None,
      rename_columns = True, query_limit = NoLimit\<rparr>"

text \<open>No records at all; full pages up to an offset and one record after it; a full page
  and then an error.\<close>

definition no_records :: "int \<Rightarrow> int \<Rightarrow> int \<times> int json_object list" where
  "no_records limit off = (200, [])"





section \<open>Properties of the pagination loop\<close>






section \<open>The shape of the table through the later stages\<close>

























section \<open>The time zone stage on one column\<close>

text \<open>
  A column that is not there, or that \<open>pd.to_datetime\<close> rejects, is named in a printed line
  and the frame stays as it was; a column that parses gets the cells pandas computes for it.
\<close>

lemma convert_column_absent:
  "utc_col \<notin> set (column_names df) \<Longrightarrow>
   convert_column pd utc_col (df, out) = (df, out @ [utc_col])"
proof -
  assume "utc_col \<notin> set (column_names df)"
  then have "filter (\<lambda>(n, cells). n = utc_col) (df_columns df) = []"
    by (force simp: column_names_def filter_empty_conv)
  then show ?thesis
    by (simp add: convert_column_def)
qed

lemma convert_column_unparsed:
  "filter (\<lambda>(n, cells). n = utc_col) (df_columns df) = [(utc_col, cells)] \<Longrightarrow>
   to_datetime pd cells = None \<Longrightarrow>
   convert_column pd utc_col (df, out) = (df, out @ [utc_col])"
  by (simp add: convert_column_def)

lemma convert_column_naive:
  "filter (\<lambda>(n, cells). n = utc_col) (df_columns df) = [(utc_col, cells)] \<Longrightarrow>
   to_datetime pd cells = Some parsed \<Longrightarrow> dt_tz_is_none pd parsed = Some True \<Longrightarrow>
   tz_localize_convert pd parsed = Some local \<Longrightarrow>
   convert_column pd utc_col (df, out) = (set_column utc_col local df, out)"
  by (simp add: convert_column_def)

lemma convert_column_aware:
  "filter (\<lambda>(n, cells). n = utc_col) (df_columns df) = [(utc_col, cells)] \<Longrightarrow>
   to_datetime pd cells = Some parsed \<Longrightarrow> dt_tz_is_none pd parsed = Some False \<Longrightarrow>
   tz_convert pd parsed = Some local \<Longrightarrow>
   convert_column pd utc_col (df, out) = (set_column utc_col local df, out)"
  by (simp add: convert_column_def)

section \<open>A call that reaches the records endpoint\<close>


section \<open>Messages\<close>


lemma py_Cons: "py (c # s) = of_char c # py s"
  by (simp add: py_def)

lemma int_message_neq: "py ''invalid literal for int() with base 10'' \<noteq> exactly_one_message"
  by (simp add: exactly_one_message_def py_Cons)

section \<open>The loop from its initial state\<close>









section \<open>The sample inputs evaluated\<close>








section \<open>The last two statements on ASCII names\<close>







section \<open>The table of a call that found no record\<close>










section \<open>The two renamings\<close>


lemma column_mapping_last:
  "column_mapping (table_columns @ [entry]) (col_name entry) = Some (col_label entry)"
  by (simp add: column_mapping_def)



section \<open>The claims\<close>

text \<open>
  Claim C3. A call with both the table identifier and the table name unset, or both set,
  raises the \<open>ValueError\<close> of the first statement and sends no request; a call with exactly
  one of them does not raise that error.
\<close>

theorem invalid_argument:
  "((table_id a = None) = (table_name a = None) \<longrightarrow>
      outcome (import_tulip_table env a) = Raised (ValueError exactly_one_message)
      \<and> requests (import_tulip_table env a) = [])
   \<and> ((table_id a = None) \<noteq> (table_name a = None) \<longrightarrow>
      outcome (import_tulip_table env a) \<noteq> Raised (ValueError exactly_one_message))"
proof (intro conjI impI)
  assume "(table_id a = None) = (table_name a = None)"
  then have bad: "(table_name a = None \<and> table_id a = None)
      \<or> (table_name a \<noteq> None \<and> table_id a \<noteq> None)"
    by auto
  then show "outcome (import_tulip_table env a) = Raised (ValueError exactly_one_message)"
    by (simp add: import_tulip_table_def)
  from bad show "requests (import_tulip_table env a) = []"
    by (simp add: import_tulip_table_def)
next
  assume "(table_id a = None) \<noteq> (table_name a = None)"
  then have ok: "\<not> ((table_name a = None \<and> table_id a = None)
      \<or> (table_name a \<noteq> None \<and> table_id a \<noteq> None))"
    by auto
  show "outcome (import_tulip_table env a) \<noteq> Raised (ValueError exactly_one_message)"
    unfolding import_tulip_table_def if_not_P[OF ok]
    by (auto simp: max_limit_of_def max_iterations_of_def int_message_neq Let_def
        split: option.splits prod.splits limit_param.splits sum.splits if_splits)
qed

theorem invalid_argument_witness:
  "outcome (import_tulip_table (sample_env 200 no_records) (sample_args\<lparr>table_id := None\<rparr>))
     = Raised (ValueError exactly_one_message)
   \<and> requests (import_tulip_table (sample_env 200 no_records) (sample_args\<lparr>table_id := None\<rparr>))
     = []
   \<and> outcome (import_tulip_table (sample_env 200 no_records)
        (sample_args\<lparr>table_name := Some (py ''Orders'')\<rparr>))
     = Raised (ValueError exactly_one_message)
   \<and> outcome (import_tulip_table (sample_env 200 no_records) sample_args)
     \<noteq> Raised (ValueError exactly_one_message)"
  using invalid_argument[of "sample_args\<lparr>table_id := None\<rparr>" "sample_env 200 no_records"]
    invalid_argument[of "sample_args\<lparr>table_name := Some (py ''Orders'')\<rparr>"
      "sample_env 200 no_records"]
    invalid_argument[of sample_args "sample_env 200 no_records"]
  by (simp add: sample_args_def)

text \<open>
  Claim C10. With exactly one table reference and the credential left \<open>None\<close>, the call
  raises \<open>AttributeError\<close> (from \<open>authorization.encode()\<close>) before any request; it does not
  return the message the source uses for a failed listing.
\<close>

theorem missing_credential_raises:
  assumes "(table_id a = None) \<noteq> (table_name a = None)"
    and "authorization a = None"
  shows "outcome (import_tulip_table env a) = Raised (AttributeError none_encode_message)
    \<and> requests (import_tulip_table env a) = []
    \<and> outcome (import_tulip_table env a) \<noteq> Returned (Message invalid_credentials_message)"
proof -
  from assms(1) have ok: "\<not> ((table_name a = None \<and> table_id a = None)
      \<or> (table_name a \<noteq> None \<and> table_id a \<noteq> None))"
    by auto
  show ?thesis
    unfolding import_tulip_table_def if_not_P[OF ok] by (simp add: assms(2))
qed

theorem missing_credential_raises_witness:
  "outcome (import_tulip_table (sample_env 200 no_records) (sample_args\<lparr>authorization := None\<rparr>))
     = Raised (AttributeError none_encode_message)
   \<and> requests (import_tulip_table (sample_env 200 no_records)
        (sample_args\<lparr>authorization := None\<rparr>)) = []
   \<and> outcome (import_tulip_table (sample_env 200 no_records)
        (sample_args\<lparr>authorization := None\<rparr>))
     \<noteq> Returned (Message invalid_credentials_message)"
  using missing_credential_raises[of "sample_args\<lparr>authorization := None\<rparr>"
      "sample_env 200 no_records"]
  by (simp add: sample_args_def)



























end
